theory Spec2Isabelle
  imports Complex_Main
begin

section \<open>Strings\<close>

text \<open>
  A JavaScript string is a sequence of UTF-16 code units; a code unit is modelled as a
  natural number.  ASCII literals of the source are written with \<open>asc\<close>, every other
  literal is spelled out by its code units.
\<close>

type_synonym jstr = "nat list"

definition asc :: "string \<Rightarrow> jstr" where
  "asc s = map of_char s"

text \<open>\<open>String.prototype.trim\<close>: the code units removed at both ends are the ECMAScript
  WhiteSpace and LineTerminator code points.\<close>

definition js_whitespace :: "nat \<Rightarrow> bool" where
  "js_whitespace c =
     (c \<in> set [0x9, 0xA, 0xB, 0xC, 0xD, 0x20, 0xA0, 0x1680, 0x2028, 0x2029, 0x202F,
                0x205F, 0x3000, 0xFEFF]
      \<or> (0x2000 \<le> c \<and> c \<le> 0x200A))"

definition js_trim :: "jstr \<Rightarrow> jstr" where
  "js_trim s = rev (dropWhile js_whitespace (rev (dropWhile js_whitespace s)))"

text \<open>\<open>String.prototype.includes\<close>.\<close>

fun js_includes :: "jstr \<Rightarrow> jstr \<Rightarrow> bool" where
  "js_includes [] t = (t = [])"
| "js_includes (c # cs) t = (take (length t) (c # cs) = t \<or> js_includes cs t)"

text \<open>\<open>Array.prototype.join\<close> on strings.\<close>

fun join_with :: "jstr \<Rightarrow> jstr list \<Rightarrow> jstr" where
  "join_with sep [] = []"
| "join_with sep [s] = s"
| "join_with sep (s # t # ss) = s @ sep @ join_with sep (t # ss)"

text \<open>The decimal digits of a natural number, as code units.\<close>

fun show_nat :: "nat \<Rightarrow> jstr" where
  "show_nat n = (if n < 10 then [48 + n] else show_nat (n div 10) @ [48 + n mod 10])"

declare show_nat.simps [simp del]

text \<open>
  What \<open>innerHTML\<close> returns for an element whose only child is a text node (the HTML
  fragment serialisation algorithm outside attribute mode): four code units are replaced,
  the double quote is not among them.
\<close>

definition escape_unit :: "nat \<Rightarrow> jstr" where
  "escape_unit c =
     (if c = 0x26 then asc ''&amp;''
      else if c = 0xA0 then asc ''&nbsp;''
      else if c = 0x3C then asc ''&lt;''
      else if c = 0x3E then asc ''&gt;''
      else [c])"

definition serialize_text :: "jstr \<Rightarrow> jstr" where
  "serialize_text s = concat (map escape_unit s)"

section \<open>Values, exceptions and the platform\<close>

text \<open>
  A number is the exact value of an IEEE double, or one of the three special values;
  the negative zero is identified with zero.
\<close>

datatype jsnum = Fin rat | PosInf | NegInf | NaN

text \<open>
  The values the program handles: what \<open>JSON.parse\<close> returns, \<open>undefined\<close> for a
  property that is not there, and a built-in function read off a prototype
  (\<open>String.prototype.link\<close> is the one the program can reach).  An object is the
  association list of its own properties.
\<close>

datatype jsval =
    VUndefined
  | VNull
  | VBool bool
  | VNum jsnum
  | VStr jstr
  | VArr "jsval list"
  | VObj "(jstr \<times> jsval) list"
  | VNative jstr

text \<open>A thrown value: every exception the program can see is an \<open>Error\<close> or a
  \<open>DOMException\<close>, with a name and a message.\<close>

datatype exn = Exn (exn_name: jstr) (exn_message: jstr)

text \<open>The engine's own TypeErrors; their message text is the engine's.\<close>

datatype fault =
    ReadOfNullish jsval jstr
  | NotAFunction jstr
  | NotPrimitive

record request =
  req_query :: jstr
  req_timestamp :: jstr

text \<open>
  An HTTP response: \<open>body\<close> is what \<open>response.json()\<close> settles with.  The outcome of
  \<open>fetch\<close> is a value: the signal of line 121 makes every request settle, with a response
  or with a rejection.
\<close>

record response =
  status :: nat
  statusText :: jstr
  body :: "exn + jsval"

datatype fetch_result = Rejected exn | Responded response

text \<open>
  Everything the program takes from its environment: the clock, the network, and the
  parts of the runtime whose output is not fixed by the language (number formatting
  beyond the safe integers, the source text of a built-in function, the localised date,
  the engine's TypeError messages).
\<close>

record platform =
  clock_iso :: jstr
  fetch :: "request \<Rightarrow> fetch_result"
  numberToString :: "rat \<Rightarrow> jstr"
  nativeToString :: "jstr \<Rightarrow> jstr"
  dateToLocaleString :: "jsval \<Rightarrow> jstr"
  typeErrorMessage :: "fault \<Rightarrow> jstr"

definition bind_exn :: "exn + 'a \<Rightarrow> ('a \<Rightarrow> exn + 'b) \<Rightarrow> exn + 'b" where
  "bind_exn m f = (case m of Inl e \<Rightarrow> Inl e | Inr x \<Rightarrow> f x)"

text \<open>Evaluate left to right, stop at the first exception.\<close>

fun sequence_exn :: "(exn + 'a) list \<Rightarrow> exn + 'a list" where
  "sequence_exn [] = Inr []"
| "sequence_exn (m # ms) =
     (case m of
        Inl e \<Rightarrow> Inl e
      | Inr x \<Rightarrow> (case sequence_exn ms of Inl e \<Rightarrow> Inl e | Inr xs \<Rightarrow> Inr (x # xs)))"

definition type_error :: "platform \<Rightarrow> fault \<Rightarrow> exn" where
  "type_error P f = Exn (asc ''TypeError'') (typeErrorMessage P f)"

definition new_Error :: "jstr \<Rightarrow> exn" where
  "new_Error msg = Exn (asc ''Error'') msg"

subsection \<open>Numbers to strings\<close>

definition is_integer :: "rat \<Rightarrow> bool" where
  "is_integer x = (of_int \<lfloor>x\<rfloor> = x)"

text \<open>\<open>Number::toString\<close>: every integer below \<open>2^53\<close> in magnitude is a double of its
  own and prints as its decimal digits; the rest is the platform's.\<close>

definition number_to_string :: "platform \<Rightarrow> jsnum \<Rightarrow> jstr" where
  "number_to_string P n =
     (case n of
        Fin x \<Rightarrow>
          (if is_integer x \<and> \<bar>x\<bar> < 2 ^ 53
           then (if x < 0 then asc ''-'' else []) @ show_nat (nat \<bar>\<lfloor>x\<rfloor>\<bar>)
           else numberToString P x)
      | PosInf \<Rightarrow> asc ''Infinity''
      | NegInf \<Rightarrow> asc ''-Infinity''
      | NaN \<Rightarrow> asc ''NaN'')"

text \<open>
  \<open>Number.prototype.toFixed(2)\<close>, as ECMAScript defines it: take the sign off, let
  \<open>n\<close> be the integer nearest to \<open>100 * x\<close> (the larger one of two), write its
  digits, pad them with zeros to three, and put the point before the last two.
\<close>

definition pad_zeros :: "nat \<Rightarrow> jstr \<Rightarrow> jstr" where
  "pad_zeros k m = replicate (k - length m) 48 @ m"

definition toFixed2 :: "platform \<Rightarrow> jsnum \<Rightarrow> jstr" where
  "toFixed2 P n =
     (case n of
        Fin x \<Rightarrow>
          (let s = (if x < 0 then asc ''-'' else []);
               a = \<bar>x\<bar>
           in if a \<ge> 10 ^ 21 then s @ number_to_string P (Fin a)
              else
                (let m = pad_zeros 3 (show_nat (nat \<lfloor>a * 100 + 1 / 2\<rfloor>));
                     k = length m
                 in s @ take (k - 2) m @ asc ''.'' @ drop (k - 2) m))
      | _ \<Rightarrow> number_to_string P n)"

subsection \<open>Conversions and property access\<close>

text \<open>ToBoolean.\<close>

fun truthy :: "jsval \<Rightarrow> bool" where
  "truthy VUndefined = False"
| "truthy VNull = False"
| "truthy (VBool b) = b"
| "truthy (VNum n) = (n \<noteq> Fin 0 \<and> n \<noteq> NaN)"
| "truthy (VStr s) = (s \<noteq> [])"
| "truthy (VArr xs) = True"
| "truthy (VObj kvs) = True"
| "truthy (VNative f) = True"

text \<open>
  ToString.  An array joins its elements with a comma, \<open>null\<close> and \<open>undefined\<close>
  elements as the empty string.  A parsed object has no callable \<open>toString\<close> of its own:
  it prints through \<open>Object.prototype.toString\<close>, unless an own property of that name
  shadows it, and then the conversion throws.
\<close>

fun to_string :: "platform \<Rightarrow> jsval \<Rightarrow> exn + jstr" where
  "to_string P VUndefined = Inr (asc ''undefined'')"
| "to_string P VNull = Inr (asc ''null'')"
| "to_string P (VBool b) = Inr (if b then asc ''true'' else asc ''false'')"
| "to_string P (VNum n) = Inr (number_to_string P n)"
| "to_string P (VStr s) = Inr s"
| "to_string P (VArr xs) =
     (case sequence_exn
             (map (\<lambda>x. if x = VNull \<or> x = VUndefined then Inr [] else to_string P x) xs) of
        Inl e \<Rightarrow> Inl e
      | Inr ss \<Rightarrow> Inr (join_with (asc '','') ss))"
| "to_string P (VObj kvs) =
     (if map_of kvs (asc ''toString'') = None then Inr (asc ''[object Object]'')
      else Inl (type_error P NotPrimitive))"
| "to_string P (VNative f) = Inr (nativeToString P f)"

text \<open>
  Reading one of the properties the program reads (\<open>answer\<close>, \<open>message\<close>,
  \<open>metadata\<close>, \<open>sources\<close>, \<open>fileCount\<close>, \<open>timestamp\<close>, \<open>processingTime\<close>,
  \<open>name\<close>, \<open>title\<close>, \<open>url\<close>, \<open>link\<close>): on \<open>null\<close> and \<open>undefined\<close> the read
  throws; of these names the prototypes supply only \<open>link\<close> on a string and \<open>name\<close> on a
  function.
\<close>

definition own_property :: "(jstr \<times> jsval) list \<Rightarrow> jstr \<Rightarrow> jsval" where
  "own_property kvs k = (case map_of kvs k of None \<Rightarrow> VUndefined | Some v \<Rightarrow> v)"

fun get_prop :: "platform \<Rightarrow> jsval \<Rightarrow> jstr \<Rightarrow> exn + jsval" where
  "get_prop P VUndefined k = Inl (type_error P (ReadOfNullish VUndefined k))"
| "get_prop P VNull k = Inl (type_error P (ReadOfNullish VNull k))"
| "get_prop P (VObj kvs) k = Inr (own_property kvs k)"
| "get_prop P (VStr s) k = Inr (if k = asc ''link'' then VNative (asc ''link'') else VUndefined)"
| "get_prop P (VNative f) k = Inr (if k = asc ''name'' then VStr f else VUndefined)"
| "get_prop P (VBool b) k = Inr VUndefined"
| "get_prop P (VNum n) k = Inr VUndefined"
| "get_prop P (VArr xs) k = Inr VUndefined"

text \<open>
  The text an assignment to \<open>textContent\<close> stores (lines 156 and 235).  The property is a
  nullable string: \<open>null\<close> and \<open>undefined\<close> store the empty text, every other value is
  converted to a string first, which can throw.
\<close>

definition textContent_of :: "platform \<Rightarrow> jsval \<Rightarrow> exn + jstr" where
  "textContent_of P v = (if v = VNull \<or> v = VUndefined then Inr [] else to_string P v)"

text \<open>\<open>escapeHtml\<close> (lines 233-237): the argument is stored as the text of a fresh
  element, and the element's markup is read back.\<close>

definition escapeHtml :: "platform \<Rightarrow> jsval \<Rightarrow> exn + jstr" where
  "escapeHtml P text = bind_exn (textContent_of P text) (\<lambda>s. Inr (serialize_text s))"

section \<open>Configuration and the page\<close>

record api_config =
  endpoint :: jstr
  timeout :: nat
  maxRetries :: nat

definition API_CONFIG :: api_config where
  "API_CONFIG =
     \<lparr>endpoint = asc ''http://localhost:5678/webhook/ai-search'',
      timeout = 30000,
      maxRetries = 1\<rparr>"

text \<open>
  The page: the properties of \<open>elements\<close> that the program reads or writes, and three
  logs of what it does to the outside: the \<open>alert\<close> boxes shown, the requests handed to
  \<open>fetch\<close>, and the delays of the timers it starts.  Console output is not recorded.
\<close>

record ui =
  queryInput_value :: jstr
  searchBtn_disabled :: bool
  btnText_textContent :: jstr
  resultSection_display :: jstr
  loadingState_display :: jstr
  resultContent_display :: jstr
  errorContent_display :: jstr
  answerText_textContent :: jstr
  metadata_innerHTML :: jstr
  sourcesContainer_display :: jstr
  sourcesList_innerHTML :: jstr
  errorMessage_textContent :: jstr
  alerts :: "jstr list"
  requests :: "request list"
  timers :: "nat list"

section \<open>UI state (lines 75-96)\<close>

definition label_searching :: jstr where
  "label_searching = [0x691C, 0x7D22, 0x4E2D] @ asc ''...''"

definition label_search :: jstr where
  "label_search = [0x691C, 0x7D22]"

definition showLoading :: "ui \<Rightarrow> ui" where
  "showLoading u =
     u\<lparr>searchBtn_disabled := True,
       btnText_textContent := label_searching,
       resultSection_display := asc ''block'',
       loadingState_display := asc ''block'',
       resultContent_display := asc ''none'',
       errorContent_display := asc ''none'',
       timers := timers u @ [100]\<rparr>"

definition restoreButtonState :: "ui \<Rightarrow> ui" where
  "restoreButtonState u =
     u\<lparr>searchBtn_disabled := False, btnText_textContent := label_search\<rparr>"

section \<open>The request (lines 105-141)\<close>

definition msg_http_error :: "nat \<Rightarrow> jstr \<Rightarrow> jstr" where
  "msg_http_error st txt =
     asc ''HTTP'' @ [0x30A8, 0x30E9, 0x30FC] @ asc '': '' @ show_nat st @ asc '' '' @ txt"

definition msg_timeout :: "platform \<Rightarrow> jstr" where
  "msg_timeout P =
     [0x30EA, 0x30AF, 0x30A8, 0x30B9, 0x30C8, 0x304C, 0x30BF, 0x30A4, 0x30E0, 0x30A2, 0x30A6,
      0x30C8, 0x3057, 0x307E, 0x3057, 0x305F, 0xFF08]
     @ number_to_string P (Fin (of_nat (timeout API_CONFIG) / 1000))
     @ [0x79D2, 0x4EE5, 0x4E0A, 0xFF09]"

text \<open>\<open>response.ok\<close>: the status is in the range 200 to 299.\<close>

definition response_ok :: "response \<Rightarrow> bool" where
  "response_ok r = (200 \<le> status r \<and> status r \<le> 299)"

text \<open>The \<open>catch\<close> of lines 135-140; everything thrown inside the \<open>try\<close> passes
  through it, the HTTP error of line 126 too.\<close>

definition callAPI_catch :: "platform \<Rightarrow> exn \<Rightarrow> exn" where
  "callAPI_catch P error =
     (if exn_name error = asc ''AbortError'' then new_Error (msg_timeout P) else error)"

definition callAPI :: "platform \<Rightarrow> jstr \<Rightarrow> ui \<Rightarrow> (exn + jsval) \<times> ui" where
  "callAPI P query u =
     (let requestBody = \<lparr>req_query = query, req_timestamp = clock_iso P\<rparr>;
          u' = u\<lparr>requests := requests u @ [requestBody]\<rparr>
      in (case fetch P requestBody of
            Rejected error \<Rightarrow> (Inl (callAPI_catch P error), u')
          | Responded r \<Rightarrow>
              (if \<not> response_ok r
               then (Inl (callAPI_catch P (new_Error (msg_http_error (status r) (statusText r)))), u')
               else (case body r of
                       Inl error \<Rightarrow> (Inl (callAPI_catch P error), u')
                     | Inr data \<Rightarrow> (Inr data, u')))))"

section \<open>Rendering the result (lines 149-237)\<close>

definition js_or :: "jsval \<Rightarrow> jsval \<Rightarrow> jsval" where
  "js_or a b = (if truthy a then a else b)"

definition msg_no_answer :: jstr where
  "msg_no_answer =
     [0x56DE, 0x7B54, 0x304C, 0x53D6, 0x5F97, 0x3067, 0x304D, 0x307E, 0x305B, 0x3093, 0x3067,
      0x3057, 0x305F]"

definition item_fileCount :: "jstr \<Rightarrow> jstr" where
  \<open>item_fileCount s =
     asc ''<div class="metadata-item">'' @ [0xD83D, 0xDCC4, 0x20] @ s
     @ [0x4EF6, 0x306E, 0x30D5, 0x30A1, 0x30A4, 0x30EB, 0x3092, 0x53C2, 0x7167] @ asc ''</div>''\<close>

definition item_timestamp :: "jstr \<Rightarrow> jstr" where
  \<open>item_timestamp s =
     asc ''<div class="metadata-item">'' @ [0x23F1, 0xFE0F, 0x20] @ s @ asc ''</div>''\<close>

definition item_processingTime :: "jstr \<Rightarrow> jstr" where
  \<open>item_processingTime s =
     asc ''<div class="metadata-item">'' @ [0x26A1, 0x20] @ s @ [0x79D2] @ asc ''</div>''\<close>

text \<open>\<open>new Date(v).toLocaleString('ja-JP')\<close>: the constructor converts an object to a
  primitive first, which throws where ToString does; the text is the platform's.\<close>

definition timeStr :: "platform \<Rightarrow> jsval \<Rightarrow> exn + jstr" where
  "timeStr P v = bind_exn (to_string P v) (\<lambda>_. Inr (dateToLocaleString P v))"

text \<open>The method call \<open>v.toFixed(2)\<close>: only a number has the method.\<close>

fun call_toFixed2 :: "platform \<Rightarrow> jsval \<Rightarrow> exn + jstr" where
  "call_toFixed2 P (VNum n) = Inr (toFixed2 P n)"
| "call_toFixed2 P VNull = Inl (type_error P (ReadOfNullish VNull (asc ''toFixed'')))"
| "call_toFixed2 P VUndefined = Inl (type_error P (ReadOfNullish VUndefined (asc ''toFixed'')))"
| "call_toFixed2 P v = Inl (type_error P (NotAFunction (asc ''toFixed'')))"

text \<open>The array \<open>items\<close> of lines 176-193.\<close>

definition metadata_items :: "platform \<Rightarrow> jsval \<Rightarrow> exn + jstr list" where
  "metadata_items P metadata =
     bind_exn (get_prop P metadata (asc ''fileCount'')) (\<lambda>fileCount.
     bind_exn (if fileCount \<noteq> VUndefined
               then bind_exn (to_string P fileCount) (\<lambda>s. Inr [item_fileCount s])
               else Inr []) (\<lambda>items1.
     bind_exn (get_prop P metadata (asc ''timestamp'')) (\<lambda>timestamp.
     bind_exn (if truthy timestamp
               then bind_exn (timeStr P timestamp) (\<lambda>s. Inr [item_timestamp s])
               else Inr []) (\<lambda>items2.
     bind_exn (get_prop P metadata (asc ''processingTime'')) (\<lambda>processingTime.
     bind_exn (if processingTime \<noteq> VUndefined
               then bind_exn (call_toFixed2 P processingTime) (\<lambda>s. Inr [item_processingTime s])
               else Inr []) (\<lambda>items3.
     Inr (items1 @ items2 @ items3)))))))"

text \<open>A rendering function returns the exception it threw, if any, beside the page as
  it was left.\<close>

definition displayMetadata :: "platform \<Rightarrow> jsval \<Rightarrow> ui \<Rightarrow> exn option \<times> ui" where
  "displayMetadata P metadata u =
     (case metadata_items P metadata of
        Inl e \<Rightarrow> (Some e, u)
      | Inr items \<Rightarrow>
          (None, if length items > 0 then u\<lparr>metadata_innerHTML := concat items\<rparr> else u))"

definition label_reference :: "nat \<Rightarrow> jstr" where
  "label_reference index = [0x53C2, 0x7167, 0x20] @ show_nat (index + 1)"

definition source_template :: "jstr \<Rightarrow> jstr \<Rightarrow> jstr" where
  \<open>source_template href label =
     [0xA]
     @ asc ''                <a href="''
     @ href
     @ asc ''" target="_blank" rel="noopener noreferrer" class="source-item">''
     @ [0xA]
     @ asc ''                    <svg class="source-icon" viewBox="0 0 24 24" fill="none" stroke="currentColor" stroke-width="2">''
     @ [0xA]
     @ asc ''                        <path d="M13 2H6a2 2 0 0 0-2 2v16a2 2 0 0 0 2 2h12a2 2 0 0 0 2-2V9z"></path>''
     @ [0xA]
     @ asc ''                        <polyline points="13 2 13 9 20 9"></polyline>''
     @ [0xA]
     @ asc ''                    </svg>''
     @ [0xA]
     @ asc ''                    <span class="source-name">''
     @ label
     @ asc ''</span>''
     @ [0xA]
     @ asc ''                </a>''
     @ [0xA]
     @ asc ''            ''\<close>

text \<open>The callback of \<open>sources.map\<close> (lines 209-222).  A property read has no effect
  and the four reads throw together (on \<open>null\<close> and \<open>undefined\<close>) or not at all, so they
  are written ahead of the two \<open>||\<close> chains.\<close>

definition render_source :: "platform \<Rightarrow> jsval \<Rightarrow> nat \<Rightarrow> exn + jstr" where
  "render_source P source index =
     bind_exn (get_prop P source (asc ''name'')) (\<lambda>n.
     bind_exn (get_prop P source (asc ''title'')) (\<lambda>t.
     bind_exn (get_prop P source (asc ''url'')) (\<lambda>u.
     bind_exn (get_prop P source (asc ''link'')) (\<lambda>l.
       (let name = js_or n (js_or t (VStr (label_reference index)));
            url = js_or u (js_or l (VStr (asc ''#'')))
        in bind_exn (escapeHtml P url) (\<lambda>href.
           bind_exn (escapeHtml P name) (\<lambda>label.
           Inr (source_template href label))))))))"

fun map_sources :: "platform \<Rightarrow> nat \<Rightarrow> jsval list \<Rightarrow> exn + jstr list" where
  "map_sources P index [] = Inr []"
| "map_sources P index (source # rest) =
     bind_exn (render_source P source index) (\<lambda>h.
     bind_exn (map_sources P (Suc index) rest) (\<lambda>hs. Inr (h # hs)))"

definition displaySources :: "platform \<Rightarrow> jsval list \<Rightarrow> ui \<Rightarrow> exn option \<times> ui" where
  "displaySources P sources u =
     (let u1 = u\<lparr>sourcesContainer_display := asc ''block''\<rparr>
      in (case map_sources P 0 sources of
            Inl e \<Rightarrow> (Some e, u1)
          | Inr htmls \<Rightarrow> (None, u1\<lparr>sourcesList_innerHTML := concat htmls\<rparr>)))"

text \<open>\<open>data.answer || data.message || '...'\<close> (line 155).\<close>

definition answer_of :: "platform \<Rightarrow> jsval \<Rightarrow> exn + jsval" where
  "answer_of P data =
     bind_exn (get_prop P data (asc ''answer'')) (\<lambda>a.
     if truthy a then Inr a
     else bind_exn (get_prop P data (asc ''message'')) (\<lambda>m.
          Inr (js_or m (VStr msg_no_answer))))"

text \<open>The condition of line 164.\<close>

fun nonempty_array :: "jsval \<Rightarrow> bool" where
  "nonempty_array (VArr xs) = (length xs > 0)"
| "nonempty_array v = False"

fun array_elements :: "jsval \<Rightarrow> jsval list" where
  "array_elements (VArr xs) = xs"
| "array_elements v = []"

definition displayResult :: "platform \<Rightarrow> jsval \<Rightarrow> ui \<Rightarrow> exn option \<times> ui" where
  "displayResult P data u =
     (let u1 = u\<lparr>loadingState_display := asc ''none'',
                 resultContent_display := asc ''block'',
                 errorContent_display := asc ''none''\<rparr>
      in case bind_exn (answer_of P data) (textContent_of P) of
           Inl e \<Rightarrow> (Some e, u1)
         | Inr answer \<Rightarrow>
             (let u2 = u1\<lparr>answerText_textContent := answer\<rparr>
              in case get_prop P data (asc ''metadata'') of
                   Inl e \<Rightarrow> (Some e, u2)
                 | Inr metadata \<Rightarrow>
                     (case (if truthy metadata then displayMetadata P metadata u2
                            else (None, u2)) of
                        (Some e, u3) \<Rightarrow> (Some e, u3)
                      | (None, u3) \<Rightarrow>
                          (case get_prop P data (asc ''sources'') of
                             Inl e \<Rightarrow> (Some e, u3)
                           | Inr sources \<Rightarrow>
                               (if truthy sources \<and> nonempty_array sources
                                then displaySources P (array_elements sources) u3
                                else (None, u3\<lparr>sourcesContainer_display := asc ''none''\<rparr>))))))"

section \<open>Showing an error (lines 245-261)\<close>

definition msg_error_default :: jstr where
  "msg_error_default =
     [0x30A8, 0x30E9, 0x30FC, 0x304C, 0x767A, 0x751F, 0x3057, 0x307E, 0x3057, 0x305F]"

definition msg_cannot_connect :: jstr where
  "msg_cannot_connect =
     [0x30B5, 0x30FC, 0x30D0, 0x30FC, 0x306B, 0x63A5, 0x7D9A, 0x3067, 0x304D, 0x307E, 0x305B,
      0x3093, 0x3002, 0xA, 0xA]
     @ asc ''Webhook URL''
     @ [0x3092, 0x78BA, 0x8A8D, 0x3057, 0x3066, 0x304F, 0x3060, 0x3055, 0x3044, 0x3A, 0xA]
     @ endpoint API_CONFIG"

definition displayError :: "exn \<Rightarrow> ui \<Rightarrow> ui" where
  "displayError error u =
     (let u1 = u\<lparr>loadingState_display := asc ''none'',
                 resultContent_display := asc ''none'',
                 errorContent_display := asc ''block''\<rparr>;
          errorMsg = (if exn_message error \<noteq> [] then exn_message error else msg_error_default);
          errorMsg' = (if js_includes (exn_message error) (asc ''Failed to fetch'')
                       then msg_cannot_connect else errorMsg)
      in u1\<lparr>errorMessage_textContent := errorMsg'\<rparr>)"

section \<open>The submit handler (lines 41-68)\<close>

definition msg_enter_question :: jstr where
  "msg_enter_question =
     [0x8CEA, 0x554F, 0x3092, 0x5165, 0x529B, 0x3057, 0x3066, 0x304F, 0x3060, 0x3055, 0x3044]"

definition handleSearch :: "platform \<Rightarrow> ui \<Rightarrow> ui" where
  "handleSearch P u =
     (let query = js_trim (queryInput_value u)
      in if query = [] then u\<lparr>alerts := alerts u @ [msg_enter_question]\<rparr>
         else
           (let u1 = showLoading u
            in restoreButtonState
                 (case callAPI P query u1 of
                    (Inl error, u2) \<Rightarrow> displayError error u2
                  | (Inr response, u2) \<Rightarrow>
                      (case displayResult P response u2 of
                         (Some error, u3) \<Rightarrow> displayError error u3
                       | (None, u3) \<Rightarrow> u3))))"

section \<open>The development helper (lines 286-308)\<close>

definition mockData :: "platform \<Rightarrow> jsval" where
  "mockData P =
     VObj
      [(asc ''answer'',
        VStr ([0x3053, 0x308C, 0x306F, 0x30C6, 0x30B9, 0x30C8, 0x306E, 0x56DE, 0x7B54, 0x3067,
               0x3059, 0x3002, 0x5B9F, 0x969B, 0x306E] @ asc ''API''
              @ [0x30EC, 0x30B9, 0x30DD, 0x30F3, 0x30B9, 0x304C, 0x3053, 0x3053, 0x306B, 0x8868,
                 0x793A, 0x3055, 0x308C, 0x307E, 0x3059, 0x3002])),
       (asc ''metadata'',
        VObj [(asc ''fileCount'', VNum (Fin 3)),
              (asc ''timestamp'', VStr (clock_iso P)),
              (asc ''processingTime'', VNum (Fin (123 / 100)))]),
       (asc ''sources'',
        VArr [VObj [(asc ''name'',
                     VStr [0x30D7, 0x30ED, 0x30B8, 0x30A7, 0x30AF, 0x30C8, 0x9032, 0x884C, 0x30AC,
                           0x30A4, 0x30C9]),
                    (asc ''url'', VStr (asc ''https://example.com/guide''))],
              VObj [(asc ''name'',
                     VStr [0x5951, 0x7D04, 0x66F8, 0x30C6, 0x30F3, 0x30D7, 0x30EC, 0x30FC, 0x30C8]),
                    (asc ''url'', VStr (asc ''https://example.com/template''))]])]"

definition showMockResult :: "platform \<Rightarrow> ui \<Rightarrow> exn option \<times> ui" where
  "showMockResult P u =
     (case displayResult P (mockData P) u of
        (Some e, u') \<Rightarrow> (Some e, u')
      | (None, u') \<Rightarrow> (None, restoreButtonState u'))"

section \<open>The lifecycle states of the specification\<close>

text \<open>
  The specification speaks of four states of the page.  They are read off the three
  regions the program shows and hides: the loading indicator, the result and the error.
\<close>

datatype UiState = Idle | Loading | Result | Error

definition ui_state :: "ui \<Rightarrow> UiState" where
  "ui_state u =
     (if loadingState_display u = asc ''block'' then Loading
      else if resultContent_display u = asc ''block'' \<and> errorContent_display u = asc ''none''
      then Result
      else if errorContent_display u = asc ''block'' \<and> resultContent_display u = asc ''none''
      then Error
      else Idle)"

section \<open>Test fixtures\<close>

text \<open>A platform whose network settles every request with \<open>r\<close>, and the page as it is
  loaded, with a query typed in.\<close>

definition mock_platform :: "fetch_result \<Rightarrow> platform" where
  "mock_platform r =
     \<lparr>clock_iso = asc ''2024-01-01T00:00:00.000Z'',
      fetch = (\<lambda>_. r),
      numberToString = (\<lambda>_. asc ''1e+21''),
      nativeToString = (\<lambda>f. asc ''function '' @ f @ asc ''() { [native code] }''),
      dateToLocaleString = (\<lambda>_. asc ''2024/1/1 9:00:00''),
      typeErrorMessage = (\<lambda>_. asc ''Cannot read properties'')\<rparr>"

definition mock_ok :: "jsval \<Rightarrow> fetch_result" where
  "mock_ok data = Responded \<lparr>status = 200, statusText = asc ''OK'', body = Inr data\<rparr>"

definition fresh_page :: "jstr \<Rightarrow> ui" where
  "fresh_page q =
     \<lparr>queryInput_value = q,
      searchBtn_disabled = False,
      btnText_textContent = label_search,
      resultSection_display = asc ''none'',
      loadingState_display = asc ''none'',
      resultContent_display = asc ''none'',
      errorContent_display = asc ''none'',
      answerText_textContent = [],
      metadata_innerHTML = [],
      sourcesContainer_display = asc ''none'',
      sourcesList_innerHTML = [],
      errorMessage_textContent = [],
      alerts = [],
      requests = [],
      timers = []\<rparr>"

section \<open>The timeout of the request\<close>

text \<open>
  What the \<open>fetch\<close> of line 114 is rejected with when the signal of line 121 fires:
  \<open>AbortSignal.timeout\<close> aborts with a \<open>DOMException\<close> named \<open>TimeoutError\<close> (DOM
  standard, the static method \<open>timeout\<close>); the message is the browser's, here
  Chromium's.
\<close>

definition timeout_abort_reason :: exn where
  "timeout_abort_reason = Exn (asc ''TimeoutError'') (asc ''signal timed out'')"

section \<open>The claims as the specification words them\<close>

text \<open>
  The answer text as the specification states it, where the presence of a field
  decides: the \<open>answer\<close> field if the body has one, else the \<open>message\<close> field if it has
  one, else the fixed text.
\<close>

definition claimed_answer :: "(jstr \<times> jsval) list \<Rightarrow> jsval" where
  "claimed_answer kvs =
     (case map_of kvs (asc ''answer'') of
        Some a \<Rightarrow> a
      | None \<Rightarrow> (case map_of kvs (asc ''message'') of
                   Some m \<Rightarrow> m
                 | None \<Rightarrow> VStr msg_no_answer))"


text \<open>
  The label and the target of the link of an object entry in the words of the amended
  claims: the first truthy one of \<open>name\<close>, \<open>title\<close> and the numbered reference; the
  first truthy one of \<open>url\<close>, \<open>link\<close> and the placeholder \<open>#\<close>.
\<close>

definition source_label :: "(jstr \<times> jsval) list \<Rightarrow> nat \<Rightarrow> jsval" where
  "source_label kvs i =
     js_or (own_property kvs (asc ''name''))
       (js_or (own_property kvs (asc ''title'')) (VStr (label_reference i)))"

definition source_target :: "(jstr \<times> jsval) list \<Rightarrow> jsval" where
  "source_target kvs =
     js_or (own_property kvs (asc ''url''))
       (js_or (own_property kvs (asc ''link'')) (VStr (asc ''#'')))"

text \<open>The response of the end-to-end scenario of the specification.\<close>

definition policy_response :: jsval where
  "policy_response =
     VObj [(asc ''answer'', VStr (asc ''30 days'')),
           (asc ''sources'',
            VArr [VObj [(asc ''name'', VStr (asc ''Policy Doc'')),
                        (asc ''url'', VStr (asc ''https://x/policy''))]])]"


section \<open>Strings: basic facts\<close>

lemma js_trim_empty_iff: "js_trim s = [] \<longleftrightarrow> (\<forall>c\<in>set s. js_whitespace c)"
proof -
  have "js_trim s = [] \<longleftrightarrow> dropWhile js_whitespace (rev (dropWhile js_whitespace s)) = []"
    by (simp add: js_trim_def)
  also have "\<dots> \<longleftrightarrow> (\<forall>c\<in>set (dropWhile js_whitespace s). js_whitespace c)"
    by (simp add: dropWhile_eq_Nil_conv)
  also have "\<dots> \<longleftrightarrow> dropWhile js_whitespace s = []"
    by (metis hd_dropWhile list.set_sel(1) empty_iff list.set(1))
  also have "\<dots> \<longleftrightarrow> (\<forall>c\<in>set s. js_whitespace c)"
    by (simp add: dropWhile_eq_Nil_conv)
  finally show ?thesis .
qed

lemma none_neq_block: "asc ''none'' \<noteq> asc ''block''"
  by (simp add: asc_def)

section \<open>Values: basic facts\<close>

lemma textContent_of_truthy: "truthy v \<Longrightarrow> textContent_of P v = to_string P v"
  by (auto simp: textContent_of_def)

lemma textContent_of_VStr [simp]: "textContent_of P (VStr s) = Inr s"
  by (simp add: textContent_of_def)

lemma textContent_of_js_or:
  "textContent_of P (js_or a (js_or b (VStr s))) = to_string P (js_or a (js_or b (VStr s)))"
  by (auto simp: textContent_of_def js_or_def)

lemma get_prop_other:
  "get_prop P x k = Inr v \<Longrightarrow> \<exists>w. get_prop P x k' = Inr w"
  by (cases x) simp_all

section \<open>What each function touches\<close>

lemma displayMetadata_frame:
  "displayMetadata P m u = (r, u') \<Longrightarrow> u' = u \<or> (\<exists>h. u' = u\<lparr>metadata_innerHTML := h\<rparr>)"
  by (auto simp: displayMetadata_def split: sum.splits if_splits)

lemma displaySources_frame:
  "displaySources P xs u = (r, u') \<Longrightarrow>
     u' = u\<lparr>sourcesContainer_display := asc ''block''\<rparr>
     \<or> (\<exists>h. u' = u\<lparr>sourcesContainer_display := asc ''block'', sourcesList_innerHTML := h\<rparr>)"
  by (auto simp: displaySources_def Let_def split: sum.splits)

lemma displayResult_frame:
  assumes "displayResult P d u = (r, u')"
  shows "loadingState_display u' = asc ''none''
       \<and> resultContent_display u' = asc ''block''
       \<and> errorContent_display u' = asc ''none''
       \<and> requests u' = requests u \<and> alerts u' = alerts u \<and> timers u' = timers u
       \<and> queryInput_value u' = queryInput_value u"
  using assms
  by (auto simp: displayResult_def Let_def
      split: sum.splits option.splits prod.splits if_splits
      dest!: displayMetadata_frame displaySources_frame)

lemma displayError_display:
  "loadingState_display (displayError e u) = asc ''none''
   \<and> resultContent_display (displayError e u) = asc ''none''
   \<and> errorContent_display (displayError e u) = asc ''block''
   \<and> requests (displayError e u) = requests u"
  by (simp add: displayError_def Let_def)

lemma callAPI_frame:
  "callAPI P q u = (r, u') \<Longrightarrow>
     u' = u\<lparr>requests := requests u @ [\<lparr>req_query = q, req_timestamp = clock_iso P\<rparr>]\<rparr>"
  by (auto simp: callAPI_def Let_def split: fetch_result.splits if_splits sum.splits)

section \<open>The submit handler\<close>

text \<open>
  C1.  Whenever the trimmed query is not empty, whatever the network and the rendering
  do (the response arrives, the request is rejected or times out, the body does not
  parse, the rendering throws), the handler leaves the page in the Result or in the
  Error state and not in Loading: the loading indicator is hidden, the submit button is
  enabled again and its label is the one of the idle page.
\<close>

theorem handleSearch_leaves_loading:
  assumes "js_trim (queryInput_value u) \<noteq> []"
  shows "ui_state (handleSearch P u) \<in> {Result, Error}
       \<and> loadingState_display (handleSearch P u) = asc ''none''
       \<and> searchBtn_disabled (handleSearch P u) = False
       \<and> btnText_textContent (handleSearch P u) = label_search"
proof -
  obtain r u2 where c: "callAPI P (js_trim (queryInput_value u)) (showLoading u) = (r, u2)"
    by (cases "callAPI P (js_trim (queryInput_value u)) (showLoading u)")
  show ?thesis
  proof (cases r)
    case (Inl e)
    with assms c have "handleSearch P u = restoreButtonState (displayError e u2)"
      by (simp add: handleSearch_def Let_def)
    then show ?thesis
      by (simp add: restoreButtonState_def ui_state_def displayError_display none_neq_block)
  next
    case (Inr d)
    obtain x u3 where d: "displayResult P d u2 = (x, u3)"
      by (cases "displayResult P d u2")
    show ?thesis
    proof (cases x)
      case None
      with assms c Inr d have "handleSearch P u = restoreButtonState u3"
        by (simp add: handleSearch_def Let_def)
      with displayResult_frame [OF d] show ?thesis
        by (simp add: restoreButtonState_def ui_state_def none_neq_block)
    next
      case (Some e)
      with assms c Inr d have "handleSearch P u = restoreButtonState (displayError e u3)"
        by (simp add: handleSearch_def Let_def)
      then show ?thesis
        by (simp add: restoreButtonState_def ui_state_def displayError_display none_neq_block)
    qed
  qed
qed

theorem handleSearch_leaves_loading_witness:
  "js_trim (queryInput_value (fresh_page (asc '' refund policy ''))) \<noteq> []
   \<and> ui_state (handleSearch (mock_platform (Rejected (Exn (asc ''TypeError'') (asc ''Failed to fetch''))))
                  (fresh_page (asc '' refund policy ''))) \<in> {Result, Error}
   \<and> searchBtn_disabled
        (handleSearch (mock_platform (Rejected (Exn (asc ''TypeError'') (asc ''Failed to fetch''))))
           (fresh_page (asc '' refund policy ''))) = False"
proof -
  have h: "js_trim (queryInput_value (fresh_page (asc '' refund policy ''))) \<noteq> []"
    by (simp add: fresh_page_def js_trim_def js_whitespace_def asc_def)
  from handleSearch_leaves_loading [OF h] h show ?thesis
    by blast
qed

text \<open>
  C2.  When the query consists of white space only (its trimmed form is empty), the
  handler shows one alert and does nothing else: no request is handed to the network, no
  region of the page changes, and the state of the page is the one it had.
\<close>

theorem handleSearch_whitespace_only:
  assumes "\<forall>c\<in>set (queryInput_value u). js_whitespace c"
  shows "handleSearch P u = u\<lparr>alerts := alerts u @ [msg_enter_question]\<rparr>
       \<and> requests (handleSearch P u) = requests u
       \<and> ui_state (handleSearch P u) = ui_state u"
proof -
  from assms have "js_trim (queryInput_value u) = []"
    by (simp add: js_trim_empty_iff)
  then show ?thesis
    by (simp add: handleSearch_def ui_state_def)
qed

theorem handleSearch_whitespace_only_witness:
  "js_whitespace 0x3000 \<and> js_whitespace 0x20 \<and> js_whitespace 0xA
   \<and> requests (handleSearch (mock_platform (mock_ok VNull)) (fresh_page [0x3000, 0x20, 0xA])) = []
   \<and> ui_state (handleSearch (mock_platform (mock_ok VNull)) (fresh_page [0x3000, 0x20, 0xA])) = Idle"
proof -
  have h: "\<forall>c\<in>set (queryInput_value (fresh_page [0x3000, 0x20, 0xA])). js_whitespace c"
    by (simp add: fresh_page_def js_whitespace_def)
  have i: "ui_state (fresh_page [0x3000, 0x20, 0xA]) = Idle"
    by (simp add: ui_state_def fresh_page_def asc_def)
  have r: "requests (fresh_page [0x3000, 0x20, 0xA]) = []"
    by (simp add: fresh_page_def)
  note t = handleSearch_whitespace_only [OF h, of "mock_platform (mock_ok VNull)"]
  from t have "requests (handleSearch (mock_platform (mock_ok VNull))
                  (fresh_page [0x3000, 0x20, 0xA])) = []"
    using r by metis
  moreover from t have "ui_state (handleSearch (mock_platform (mock_ok VNull))
                  (fresh_page [0x3000, 0x20, 0xA])) = Idle"
    using i by metis
  ultimately show ?thesis
    by (simp add: js_whitespace_def)
qed

section \<open>The request client\<close>

lemma show_nat_30: "show_nat 30 = asc ''30''"
  by (simp add: show_nat.simps asc_def)

lemma msg_timeout_text:
  "msg_timeout P =
     [0x30EA, 0x30AF, 0x30A8, 0x30B9, 0x30C8, 0x304C, 0x30BF, 0x30A4, 0x30E0, 0x30A2, 0x30A6,
      0x30C8, 0x3057, 0x307E, 0x3057, 0x305F, 0xFF08] @ asc ''30'' @ [0x79D2, 0x4EE5, 0x4E0A, 0xFF09]"
proof -
  have "(of_nat (timeout API_CONFIG) / 1000 :: rat) = 30"
    by (simp add: API_CONFIG_def)
  then have "number_to_string P (Fin (of_nat (timeout API_CONFIG) / 1000)) = show_nat 30"
    by (simp add: number_to_string_def is_integer_def)
  then show ?thesis
    by (simp add: msg_timeout_def show_nat_30)
qed

lemma callAPI_AbortError:
  "fst (callAPI (P\<lparr>fetch := \<lambda>_. Rejected (Exn (asc ''AbortError'') m)\<rparr>) q u)
     = Inl (new_Error (msg_timeout P))"
  by (simp add: callAPI_def callAPI_catch_def Let_def msg_timeout_def number_to_string_def)

text \<open>
  C3.  The request that is abandoned at the configured timeout is rejected with
  \<open>timeout_abort_reason\<close>.  Its name is not the \<open>AbortError\<close> that line 136 looks
  for, so the request client passes it on as it is, and the message shown in the Error
  state is the browser's, without the configured duration of 30 seconds (the message
  with the duration is \<open>msg_timeout\<close>, reached through \<open>callAPI_AbortError\<close> only).
\<close>

theorem callAPI_timeout_not_recognised:
  "fst (callAPI (P\<lparr>fetch := \<lambda>_. Rejected timeout_abort_reason\<rparr>) q u) = Inl timeout_abort_reason
   \<and> errorMessage_textContent
        (handleSearch (P\<lparr>fetch := \<lambda>_. Rejected timeout_abort_reason\<rparr>)
           (u\<lparr>queryInput_value := asc ''refund''\<rparr>)) = asc ''signal timed out''
   \<and> \<not> js_includes (asc ''signal timed out'') (asc ''30'')"
proof -
  have n: "exn_name timeout_abort_reason \<noteq> asc ''AbortError''"
    by (simp add: timeout_abort_reason_def asc_def)
  have c: "\<And>q u. callAPI (P\<lparr>fetch := \<lambda>_. Rejected timeout_abort_reason\<rparr>) q u
             = (Inl timeout_abort_reason,
                u\<lparr>requests := requests u @ [\<lparr>req_query = q, req_timestamp = clock_iso P\<rparr>]\<rparr>)"
    using n by (simp add: callAPI_def callAPI_catch_def Let_def)
  have t: "js_trim (asc ''refund'') \<noteq> []"
    by (simp add: js_trim_def js_whitespace_def asc_def)
  have f: "\<not> js_includes (asc ''signal timed out'') (asc ''Failed to fetch'')"
    by (simp add: asc_def)
  have m: "exn_message timeout_abort_reason = asc ''signal timed out''"
    by (simp add: timeout_abort_reason_def)
  have e: "asc ''signal timed out'' \<noteq> []"
    by (simp add: asc_def)
  have "errorMessage_textContent
        (handleSearch (P\<lparr>fetch := \<lambda>_. Rejected timeout_abort_reason\<rparr>)
           (u\<lparr>queryInput_value := asc ''refund''\<rparr>)) = asc ''signal timed out''"
    using t f e by (simp add: handleSearch_def Let_def c displayError_def restoreButtonState_def m)
  moreover have "\<not> js_includes (asc ''signal timed out'') (asc ''30'')"
    by (simp add: asc_def)
  ultimately show ?thesis
    by (simp add: c)
qed

section \<open>Rendering\<close>

text \<open>
  C4.  A metadata value is put into the markup of the metadata region as it is: a
  \<open>fileCount\<close> that is a string of markup reaches \<open>innerHTML\<close> unescaped, where
  \<open>escapeHtml\<close>, which the source links go through, would have replaced its angle
  brackets.
\<close>

theorem displayMetadata_fileCount_unescaped:
  "displayMetadata P (VObj [(asc ''fileCount'', VStr (asc ''<img src=x onerror=alert(1)>''))]) u
     = (None, u\<lparr>metadata_innerHTML := item_fileCount (asc ''<img src=x onerror=alert(1)>'')\<rparr>)
   \<and> escapeHtml P (VStr (asc ''<img src=x onerror=alert(1)>''))
       = Inr (asc ''&lt;img src=x onerror=alert(1)&gt;'')
   \<and> asc ''<img src=x onerror=alert(1)>'' \<noteq> asc ''&lt;img src=x onerror=alert(1)&gt;''"
proof -
  have k: "asc ''timestamp'' \<noteq> asc ''fileCount''" "asc ''processingTime'' \<noteq> asc ''fileCount''"
    by (simp_all add: asc_def)
  have "metadata_items P (VObj [(asc ''fileCount'', VStr (asc ''<img src=x onerror=alert(1)>''))])
          = Inr [item_fileCount (asc ''<img src=x onerror=alert(1)>'')]"
    using k by (simp add: metadata_items_def bind_exn_def own_property_def)
  then have "displayMetadata P (VObj [(asc ''fileCount'', VStr (asc ''<img src=x onerror=alert(1)>''))]) u
     = (None, u\<lparr>metadata_innerHTML := item_fileCount (asc ''<img src=x onerror=alert(1)>'')\<rparr>)"
    by (simp add: displayMetadata_def)
  moreover have "escapeHtml P (VStr (asc ''<img src=x onerror=alert(1)>''))
       = Inr (asc ''&lt;img src=x onerror=alert(1)&gt;'')"
    by (simp add: escapeHtml_def textContent_of_def bind_exn_def serialize_text_def escape_unit_def asc_def)
  moreover have "asc ''<img src=x onerror=alert(1)>'' \<noteq> asc ''&lt;img src=x onerror=alert(1)&gt;''"
    by (simp add: asc_def)
  ultimately show ?thesis
    by simp
qed

lemma displayMetadata_no_fields:
  assumes "map_of m (asc ''fileCount'') = None" "map_of m (asc ''timestamp'') = None"
    "map_of m (asc ''processingTime'') = None"
  shows "displayMetadata P (VObj m) u = (None, u)"
  using assms by (simp add: displayMetadata_def metadata_items_def bind_exn_def own_property_def)

lemma displaySources_metadata:
  "metadata_innerHTML (snd (displaySources P xs u)) = metadata_innerHTML u"
  by (simp add: displaySources_def Let_def split: sum.splits)

text \<open>
  C10.  When the response has a metadata object with none of the fields \<open>fileCount\<close>,
  \<open>timestamp\<close> and \<open>processingTime\<close>, rendering the response leaves the markup of the
  metadata region as it was: what an earlier response put there stays on the page.
\<close>

theorem displayResult_keeps_old_metadata:
  assumes "get_prop P data (asc ''metadata'') = Inr (VObj m)"
    and "map_of m (asc ''fileCount'') = None"
    and "map_of m (asc ''timestamp'') = None"
    and "map_of m (asc ''processingTime'') = None"
  shows "metadata_innerHTML (snd (displayResult P data u)) = metadata_innerHTML u"
  using assms
  by (auto simp: displayResult_def Let_def displayMetadata_no_fields displaySources_metadata
      split: sum.splits if_splits prod.splits)

theorem displayResult_keeps_old_metadata_witness:
  "get_prop (mock_platform (mock_ok VNull))
      (VObj [(asc ''answer'', VStr (asc ''30 days'')), (asc ''metadata'', VObj [])])
      (asc ''metadata'') = Inr (VObj [])
   \<and> map_of ([] :: (jstr \<times> jsval) list) (asc ''fileCount'') = None
   \<and> map_of ([] :: (jstr \<times> jsval) list) (asc ''timestamp'') = None
   \<and> map_of ([] :: (jstr \<times> jsval) list) (asc ''processingTime'') = None
   \<and> metadata_innerHTML
        (snd (displayResult (mock_platform (mock_ok VNull))
                (VObj [(asc ''answer'', VStr (asc ''30 days'')), (asc ''metadata'', VObj [])])
                ((fresh_page [])\<lparr>metadata_innerHTML := item_fileCount (asc ''3'')\<rparr>)))
      = item_fileCount (asc ''3'')
   \<and> ui_state
        (snd (displayResult (mock_platform (mock_ok VNull))
                (VObj [(asc ''answer'', VStr (asc ''30 days'')), (asc ''metadata'', VObj [])])
                ((fresh_page [])\<lparr>metadata_innerHTML := item_fileCount (asc ''3'')\<rparr>))) = Result"
proof -
  have g: "get_prop (mock_platform (mock_ok VNull))
      (VObj [(asc ''answer'', VStr (asc ''30 days'')), (asc ''metadata'', VObj [])])
      (asc ''metadata'') = Inr (VObj [])"
    by (simp add: asc_def own_property_def)
  have s: "ui_state
        (snd (displayResult (mock_platform (mock_ok VNull))
                (VObj [(asc ''answer'', VStr (asc ''30 days'')), (asc ''metadata'', VObj [])])
                ((fresh_page [])\<lparr>metadata_innerHTML := item_fileCount (asc ''3'')\<rparr>))) = Result"
    using displayResult_frame [OF surjective_pairing]
    by (simp add: ui_state_def none_neq_block)
  from displayResult_keeps_old_metadata [OF g, of "(fresh_page [])\<lparr>metadata_innerHTML := item_fileCount (asc ''3'')\<rparr>"] g s
  show ?thesis
    by simp
qed

section \<open>The answer text\<close>

lemma displayMetadata_answerText:
  "answerText_textContent (snd (displayMetadata P m u)) = answerText_textContent u"
  by (simp add: displayMetadata_def split: sum.splits)

lemma displaySources_answerText:
  "answerText_textContent (snd (displaySources P xs u)) = answerText_textContent u"
  by (simp add: displaySources_def Let_def split: sum.splits)

lemma displayResult_answerText:
  assumes "bind_exn (answer_of P data) (textContent_of P) = Inr s"
  shows "answerText_textContent (snd (displayResult P data u)) = s"
proof -
  let ?u2 = "u\<lparr>loadingState_display := asc ''none'', resultContent_display := asc ''block'',
               errorContent_display := asc ''none'', answerText_textContent := s\<rparr>"
  have m: "\<And>md. answerText_textContent (snd (displayMetadata P md ?u2)) = s"
    by (simp add: displayMetadata_answerText)
  show ?thesis
    using assms m
    apply (simp add: displayResult_def Let_def split: sum.splits prod.splits option.splits)
    apply (auto simp: displaySources_answerText split: if_splits)
       apply (metis snd_conv)+
    done
qed

lemma answer_of_props:
  assumes "get_prop P data (asc ''answer'') = Inr a" and "get_prop P data (asc ''message'') = Inr m"
  shows "answer_of P data = Inr (js_or a (js_or m (VStr msg_no_answer)))"
  using assms by (simp add: answer_of_def bind_exn_def js_or_def)

lemma displayResult_None_answer:
  assumes "displayResult P data u = (None, u')"
  shows "\<exists>a m. get_prop P data (asc ''answer'') = Inr a
           \<and> get_prop P data (asc ''message'') = Inr m
           \<and> to_string P (js_or a (js_or m (VStr msg_no_answer))) = Inr (answerText_textContent u')"
proof -
  from assms obtain s where s: "bind_exn (answer_of P data) (textContent_of P) = Inr s"
    by (cases "bind_exn (answer_of P data) (textContent_of P)")
      (simp_all add: displayResult_def Let_def)
  from displayResult_answerText [OF s, of u] assms have t: "answerText_textContent u' = s"
    by simp
  from s obtain a where a: "get_prop P data (asc ''answer'') = Inr a"
    by (cases "get_prop P data (asc ''answer'')") (simp_all add: answer_of_def bind_exn_def)
  from get_prop_other [OF a] obtain m where m: "get_prop P data (asc ''message'') = Inr m"
    by blast
  from s have "to_string P (js_or a (js_or m (VStr msg_no_answer))) = Inr s"
    by (simp add: answer_of_props [OF a m] bind_exn_def textContent_of_js_or)
  with a m t show ?thesis
    by blast
qed

text \<open>
  C5 (as amended).  For every response body whose rendering completes without an
  exception: the page is in the Result state, and the text of the answer region, put
  there as plain text, is the string form of the \<open>answer\<close> field when that is truthy (a
  text that is not empty: verbatim), otherwise of the \<open>message\<close> field when that is
  truthy, otherwise the fixed text.
\<close>

theorem displayResult_answer_text:
  assumes "displayResult P data u = (None, u')"
  shows "ui_state u' = Result
       \<and> (\<exists>a m. get_prop P data (asc ''answer'') = Inr a
              \<and> get_prop P data (asc ''message'') = Inr m
              \<and> to_string P (js_or a (js_or m (VStr msg_no_answer)))
                  = Inr (answerText_textContent u')
              \<and> (\<forall>t. a = VStr t \<and> t \<noteq> [] \<longrightarrow> answerText_textContent u' = t)
              \<and> (\<forall>t. \<not> truthy a \<and> m = VStr t \<and> t \<noteq> [] \<longrightarrow> answerText_textContent u' = t)
              \<and> (\<not> truthy a \<and> \<not> truthy m \<longrightarrow> answerText_textContent u' = msg_no_answer))"
proof -
  from displayResult_frame [OF assms] have r: "ui_state u' = Result"
    by (simp add: ui_state_def none_neq_block)
  from displayResult_None_answer [OF assms] obtain a m where
    a: "get_prop P data (asc ''answer'') = Inr a"
    and m: "get_prop P data (asc ''message'') = Inr m"
    and s: "to_string P (js_or a (js_or m (VStr msg_no_answer))) = Inr (answerText_textContent u')"
    by blast
  have 1: "answerText_textContent u' = t" if "a = VStr t" "t \<noteq> []" for t
    using s that by (simp add: js_or_def)
  have 2: "answerText_textContent u' = t" if "\<not> truthy a" "m = VStr t" "t \<noteq> []" for t
    using s that by (simp add: js_or_def)
  have 3: "answerText_textContent u' = msg_no_answer" if "\<not> truthy a" "\<not> truthy m"
    using s that by (simp add: js_or_def)
  from r a m s 1 2 3 show ?thesis
    by blast
qed

lemma displayResult_policy_response:
  "displayResult (mock_platform r) policy_response (fresh_page [])
     = (None, (fresh_page [])\<lparr>loadingState_display := asc ''none'',
                 resultContent_display := asc ''block'',
                 errorContent_display := asc ''none'',
                 answerText_textContent := asc ''30 days'',
                 sourcesContainer_display := asc ''block'',
                 sourcesList_innerHTML :=
                   source_template (asc ''https://x/policy'') (asc ''Policy Doc'')\<rparr>)"
proof -
  have k: "asc ''sources'' \<noteq> asc ''answer''" "asc ''metadata'' \<noteq> asc ''answer''"
    "asc ''metadata'' \<noteq> asc ''sources''" "asc ''url'' \<noteq> asc ''name''"
    "asc ''30 days'' \<noteq> []" "asc ''Policy Doc'' \<noteq> []" "asc ''https://x/policy'' \<noteq> []"
    by (simp_all add: asc_def)
  have e: "serialize_text (asc ''https://x/policy'') = asc ''https://x/policy''"
    "serialize_text (asc ''Policy Doc'') = asc ''Policy Doc''"
    by (simp_all add: serialize_text_def escape_unit_def asc_def)
  have "render_source (mock_platform r)
          (VObj [(asc ''name'', VStr (asc ''Policy Doc'')),
                 (asc ''url'', VStr (asc ''https://x/policy''))]) 0
          = Inr (source_template (asc ''https://x/policy'') (asc ''Policy Doc''))"
    using k e
    by (simp add: render_source_def own_property_def js_or_def escapeHtml_def textContent_of_def
        bind_exn_def)
  with k show ?thesis
    by (simp add: displayResult_def policy_response_def answer_of_def bind_exn_def
        own_property_def displaySources_def textContent_of_def)
qed

theorem displayResult_answer_text_witness:
  "displayResult (mock_platform (mock_ok policy_response)) policy_response (fresh_page [])
     = (None, (fresh_page [])\<lparr>loadingState_display := asc ''none'',
                 resultContent_display := asc ''block'',
                 errorContent_display := asc ''none'',
                 answerText_textContent := asc ''30 days'',
                 sourcesContainer_display := asc ''block'',
                 sourcesList_innerHTML :=
                   source_template (asc ''https://x/policy'') (asc ''Policy Doc'')\<rparr>)
   \<and> ui_state (snd (displayResult (mock_platform (mock_ok policy_response)) policy_response
                      (fresh_page []))) = Result
   \<and> get_prop (mock_platform (mock_ok policy_response)) policy_response (asc ''answer'')
       = Inr (VStr (asc ''30 days''))
   \<and> answerText_textContent
        (snd (displayResult (mock_platform (mock_ok policy_response)) policy_response
                (fresh_page []))) = asc ''30 days''"
proof -
  let ?P = "mock_platform (mock_ok policy_response)"
  let ?U = "(fresh_page [])\<lparr>loadingState_display := asc ''none'',
                 resultContent_display := asc ''block'',
                 errorContent_display := asc ''none'',
                 answerText_textContent := asc ''30 days'',
                 sourcesContainer_display := asc ''block'',
                 sourcesList_innerHTML :=
                   source_template (asc ''https://x/policy'') (asc ''Policy Doc'')\<rparr>"
  note d = displayResult_policy_response [of "mock_ok policy_response"]
  have k: "asc ''30 days'' \<noteq> []"
    by (simp add: asc_def)
  have a: "get_prop ?P policy_response (asc ''answer'') = Inr (VStr (asc ''30 days''))"
    by (simp add: policy_response_def own_property_def)
  from displayResult_answer_text [OF d] obtain a' where
    a': "get_prop ?P policy_response (asc ''answer'') = Inr a'"
    and t: "\<forall>t. a' = VStr t \<and> t \<noteq> [] \<longrightarrow> answerText_textContent ?U = t"
    and r: "ui_state ?U = Result"
    by blast
  from a a' have "a' = VStr (asc ''30 days'')"
    by simp
  with t k have "answerText_textContent ?U = asc ''30 days''"
    by blast
  with a r d show ?thesis
    by simp
qed

text \<open>
  C5 as stated fails.  A body with an empty \<open>answer\<close> and a \<open>message\<close> shows the
  message, not the answer.  For the body \<open>null\<close> the read of line 155 throws, and for an
  \<open>answer\<close> that is an object with a \<open>toString\<close> property of its own the assignment of
  line 156 throws: nothing is put into the answer region.  When a later step throws
  (here line 192), the answer is assigned but the handler ends in the Error state.
\<close>

theorem displayResult_answer_counterexample:
  "to_string (mock_platform (mock_ok VNull))
      (claimed_answer [(asc ''answer'', VStr []), (asc ''message'', VStr (asc ''see the manual''))])
     = Inr []
   \<and> answerText_textContent
        (snd (displayResult (mock_platform (mock_ok VNull))
                (VObj [(asc ''answer'', VStr []), (asc ''message'', VStr (asc ''see the manual''))])
                (fresh_page []))) = asc ''see the manual''
   \<and> asc ''see the manual'' \<noteq> []
   \<and> fst (displayResult (mock_platform (mock_ok VNull)) VNull (fresh_page []))
       = Some (type_error (mock_platform (mock_ok VNull)) (ReadOfNullish VNull (asc ''answer'')))
   \<and> answerText_textContent (snd (displayResult (mock_platform (mock_ok VNull)) VNull (fresh_page [])))
       = []
   \<and> msg_no_answer \<noteq> []
   \<and> displayResult (mock_platform (mock_ok VNull))
        (VObj [(asc ''answer'', VObj [(asc ''toString'', VStr (asc ''x''))]),
               (asc ''message'', VStr (asc ''see the manual''))])
        (fresh_page [])
       = (Some (type_error (mock_platform (mock_ok VNull)) NotPrimitive),
          (fresh_page [])\<lparr>loadingState_display := asc ''none'',
                           resultContent_display := asc ''block'',
                           errorContent_display := asc ''none''\<rparr>)
   \<and> ui_state
        (handleSearch
           (mock_platform
              (mock_ok (VObj [(asc ''answer'', VStr (asc ''30 days'')),
                              (asc ''metadata'',
                               VObj [(asc ''processingTime'', VStr (asc ''1.23''))])])))
           (fresh_page (asc ''refund''))) = Error"
proof -
  let ?P = "mock_platform (mock_ok VNull)"
  have 1: "to_string ?P
      (claimed_answer [(asc ''answer'', VStr []), (asc ''message'', VStr (asc ''see the manual''))])
     = Inr []"
    by (simp add: claimed_answer_def)
  have k: "asc ''message'' \<noteq> asc ''answer''" "asc ''metadata'' \<noteq> asc ''answer''"
    "asc ''timestamp'' \<noteq> asc ''processingTime''" "asc ''fileCount'' \<noteq> asc ''processingTime''"
    by (simp_all add: asc_def)
  have n: "asc ''see the manual'' \<noteq> []" "asc ''30 days'' \<noteq> []" "asc ''refund'' \<noteq> []"
    by (simp_all add: asc_def)
  have "bind_exn (answer_of ?P
           (VObj [(asc ''answer'', VStr []), (asc ''message'', VStr (asc ''see the manual''))]))
          (textContent_of ?P) = Inr (asc ''see the manual'')"
    using k n by (simp add: answer_of_def bind_exn_def own_property_def js_or_def textContent_of_def)
  then have 2: "answerText_textContent
        (snd (displayResult ?P
                (VObj [(asc ''answer'', VStr []), (asc ''message'', VStr (asc ''see the manual''))])
                (fresh_page []))) = asc ''see the manual''"
    by (rule displayResult_answerText)
  have 3: "displayResult ?P VNull (fresh_page [])
       = (Some (type_error ?P (ReadOfNullish VNull (asc ''answer''))),
          (fresh_page [])\<lparr>loadingState_display := asc ''none'',
                           resultContent_display := asc ''block'',
                           errorContent_display := asc ''none''\<rparr>)"
    by (simp add: displayResult_def answer_of_def bind_exn_def)
  have 4: "msg_no_answer \<noteq> []"
    by (simp add: msg_no_answer_def)
  have 5: "displayResult ?P
        (VObj [(asc ''answer'', VObj [(asc ''toString'', VStr (asc ''x''))]),
               (asc ''message'', VStr (asc ''see the manual''))])
        (fresh_page [])
       = (Some (type_error ?P NotPrimitive),
          (fresh_page [])\<lparr>loadingState_display := asc ''none'',
                           resultContent_display := asc ''block'',
                           errorContent_display := asc ''none''\<rparr>)"
    by (simp add: displayResult_def answer_of_def bind_exn_def own_property_def textContent_of_def)
  have t: "js_trim (queryInput_value (fresh_page (asc ''refund''))) \<noteq> []"
    by (simp add: fresh_page_def js_trim_def js_whitespace_def asc_def)
  let ?d = "VObj [(asc ''answer'', VStr (asc ''30 days'')),
                  (asc ''metadata'', VObj [(asc ''processingTime'', VStr (asc ''1.23''))])]"
  have m: "displayMetadata (mock_platform (mock_ok ?d))
             (VObj [(asc ''processingTime'', VStr (asc ''1.23''))]) v
           = (Some (type_error (mock_platform (mock_ok ?d)) (NotAFunction (asc ''toFixed''))), v)"
    for v
    using k by (simp add: displayMetadata_def metadata_items_def bind_exn_def own_property_def)
  have d: "fst (displayResult (mock_platform (mock_ok ?d)) ?d v)
             = Some (type_error (mock_platform (mock_ok ?d)) (NotAFunction (asc ''toFixed'')))"
    for v
    using k n
    by (simp add: displayResult_def answer_of_def bind_exn_def own_property_def textContent_of_def m)
  have c: "callAPI (mock_platform (mock_ok ?d)) q v
             = (Inr ?d, v\<lparr>requests := requests v @ [\<lparr>req_query = q,
                    req_timestamp = clock_iso (mock_platform (mock_ok ?d))\<rparr>]\<rparr>)" for q v
    by (simp add: callAPI_def mock_platform_def mock_ok_def response_ok_def)
  have 6: "ui_state (handleSearch (mock_platform (mock_ok ?d)) (fresh_page (asc ''refund''))) = Error"
  proof -
    let ?v = "(showLoading (fresh_page (asc ''refund'')))
                \<lparr>requests := requests (showLoading (fresh_page (asc ''refund'')))
                   @ [\<lparr>req_query = js_trim (queryInput_value (fresh_page (asc ''refund''))),
                       req_timestamp = clock_iso (mock_platform (mock_ok ?d))\<rparr>]\<rparr>"
    obtain x w where w: "displayResult (mock_platform (mock_ok ?d)) ?d ?v = (x, w)"
      by (cases "displayResult (mock_platform (mock_ok ?d)) ?d ?v")
    with d [of ?v] have x: "x = Some (type_error (mock_platform (mock_ok ?d))
                                        (NotAFunction (asc ''toFixed'')))"
      by simp
    from t w x have "handleSearch (mock_platform (mock_ok ?d)) (fresh_page (asc ''refund''))
            = restoreButtonState
                (displayError (type_error (mock_platform (mock_ok ?d))
                                 (NotAFunction (asc ''toFixed''))) w)"
      by (simp add: handleSearch_def Let_def c)
    then show ?thesis
      by (simp add: restoreButtonState_def ui_state_def displayError_display none_neq_block)
  qed
  from 1 2 3 4 5 6 n show ?thesis
    by (simp add: fresh_page_def)
qed

section \<open>The source links\<close>

lemma render_source_VObj:
  "render_source P (VObj kvs) i =
     bind_exn (escapeHtml P (source_target kvs)) (\<lambda>href.
     bind_exn (escapeHtml P (source_label kvs i)) (\<lambda>label.
     Inr (source_template href label)))"
  by (simp add: render_source_def bind_exn_def source_label_def source_target_def)







text \<open>An entry that is not an object is rendered too: a number has none of the four
  properties, a string has the built-in \<open>link\<close>.\<close>

lemma render_source_VNum:
  "render_source P (VNum n) i
     = Inr (source_template (asc ''#'') (serialize_text (label_reference i)))"
  by (simp add: render_source_def bind_exn_def js_or_def escapeHtml_def textContent_of_def
      serialize_text_def escape_unit_def asc_def)

lemma render_source_VStr:
  "render_source P (VStr s) i
     = Inr (source_template (serialize_text (nativeToString P (asc ''link'')))
              (serialize_text (label_reference i)))"
  by (simp add: render_source_def bind_exn_def js_or_def escapeHtml_def textContent_of_def asc_def)








section \<open>Substrings and decimal digits\<close>

lemma take_length_eq_iff: "take (length t) s = t \<longleftrightarrow> (\<exists>ss. s = t @ ss)"
proof
  assume "take (length t) s = t"
  then have "s = t @ drop (length t) s"
    by (metis append_take_drop_id)
  then show "\<exists>ss. s = t @ ss" ..
next
  assume "\<exists>ss. s = t @ ss"
  then show "take (length t) s = t"
    by auto
qed

lemma js_includes_iff: "js_includes s t \<longleftrightarrow> (\<exists>ps ss. s = ps @ t @ ss)"
proof (induction s)
  case Nil
  then show ?case by auto
next
  case (Cons c cs)
  show ?case
  proof
    assume "js_includes (c # cs) t"
    then consider "take (length t) (c # cs) = t" | "js_includes cs t"
      by auto
    then show "\<exists>ps ss. c # cs = ps @ t @ ss"
    proof cases
      case 1
      then obtain ss where "c # cs = t @ ss"
        using take_length_eq_iff by blast
      then have "c # cs = [] @ t @ ss" by simp
      then show ?thesis by blast
    next
      case 2
      with Cons.IH obtain ps ss where "cs = ps @ t @ ss" by blast
      then have "c # cs = (c # ps) @ t @ ss" by simp
      then show ?thesis by blast
    qed
  next
    assume "\<exists>ps ss. c # cs = ps @ t @ ss"
    then obtain ps ss where e: "c # cs = ps @ t @ ss" by blast
    show "js_includes (c # cs) t"
    proof (cases ps)
      case Nil
      with e have "take (length t) (c # cs) = t"
        using take_length_eq_iff [of t "c # cs"] by auto
      then show ?thesis by simp
    next
      case (Cons p ps')
      with e have "cs = ps' @ t @ ss" by simp
      with Cons.IH have "js_includes cs t" by blast
      then show ?thesis by simp
    qed
  qed
qed

lemma js_includes_skip:
  "c \<notin> set pre \<Longrightarrow> js_includes (pre @ s) (c # t) = js_includes s (c # t)"
  by (induction pre) auto

lemma show_nat_lt10: "n < 10 \<Longrightarrow> show_nat n = [48 + n]"
  by (simp add: show_nat.simps)

lemma show_nat_ge10: "10 \<le> n \<Longrightarrow> show_nat n = show_nat (n div 10) @ [48 + n mod 10]"
  by (subst show_nat.simps) simp



lemma show_nat_digits: "c \<in> set (show_nat n) \<Longrightarrow> 48 \<le> c \<and> c \<le> 57"
proof (induction n rule: show_nat.induct)
  case (1 n)
  show ?case
  proof (cases "n < 10")
    case True
    with "1.prems" show ?thesis by (simp add: show_nat_lt10)
  next
    case False
    then have "show_nat n = show_nat (n div 10) @ [48 + n mod 10]"
      by (simp add: show_nat_ge10)
    with "1.prems" "1.IH" [OF False] show ?thesis
      by auto
  qed
qed








section \<open>The HTTP status error\<close>

lemma msg_http_error_includes:
  "js_includes (msg_http_error st txt) (show_nat st)"
  "js_includes (msg_http_error st txt) txt"
proof -
  have "msg_http_error st txt
          = (asc ''HTTP'' @ [0x30A8, 0x30E9, 0x30FC] @ asc '': '') @ show_nat st @ (asc '' '' @ txt)"
    by (simp add: msg_http_error_def)
  then show "js_includes (msg_http_error st txt) (show_nat st)"
    unfolding js_includes_iff by blast
  have "msg_http_error st txt
          = (asc ''HTTP'' @ [0x30A8, 0x30E9, 0x30FC] @ asc '': '' @ show_nat st @ asc '' '') @ txt @ []"
    by (simp add: msg_http_error_def)
  then show "js_includes (msg_http_error st txt) txt"
    unfolding js_includes_iff by blast
qed

lemma msg_http_error_failed_to_fetch:
  "js_includes (msg_http_error st txt) (asc ''Failed to fetch'')
     = js_includes txt (asc ''Failed to fetch'')"
proof -
  have f: "asc ''Failed to fetch'' = 70 # asc ''ailed to fetch''"
    by (simp add: asc_def)
  have "70 \<notin> set (show_nat st)"
    using show_nat_digits [of 70 st] by auto
  then have "70 \<notin> set (asc ''HTTP'' @ [0x30A8, 0x30E9, 0x30FC] @ asc '': '' @ show_nat st @ asc '' '')"
    by (simp add: asc_def)
  then have "js_includes
               ((asc ''HTTP'' @ [0x30A8, 0x30E9, 0x30FC] @ asc '': '' @ show_nat st @ asc '' '') @ txt)
               (70 # asc ''ailed to fetch'')
             = js_includes txt (70 # asc ''ailed to fetch'')"
    by (rule js_includes_skip)
  then show ?thesis
    by (simp add: msg_http_error_def f)
qed

lemma msg_http_error_nonempty: "msg_http_error st txt \<noteq> []"
  by (simp add: msg_http_error_def asc_def)

lemma Error_not_AbortError: "asc ''Error'' \<noteq> asc ''AbortError''"
  by (simp add: asc_def)

text \<open>
  C8 (as amended).  For every response with a status outside 200 to 299 the request
  client fails with an \<open>Error\<close> whose message holds the status code and the status
  text; and when the status text does not contain \<open>Failed to fetch\<close>, the handler ends
  in the Error state and shows that message: for the status 500, a message with
  \<open>500\<close> in it.
\<close>

theorem callAPI_http_status_error:
  assumes "fetch P = (\<lambda>_. Responded r)" and "\<not> response_ok r"
  shows "fst (callAPI P q u) = Inl (new_Error (msg_http_error (status r) (statusText r)))
       \<and> js_includes (msg_http_error (status r) (statusText r)) (show_nat (status r))
       \<and> js_includes (msg_http_error (status r) (statusText r)) (statusText r)
       \<and> (js_trim (queryInput_value u) \<noteq> []
            \<and> \<not> js_includes (statusText r) (asc ''Failed to fetch'')
          \<longrightarrow> ui_state (handleSearch P u) = Error
              \<and> errorMessage_textContent (handleSearch P u)
                  = msg_http_error (status r) (statusText r))"
proof -
  have c: "callAPI P q' u'
             = (Inl (new_Error (msg_http_error (status r) (statusText r))),
                u'\<lparr>requests := requests u' @ [\<lparr>req_query = q', req_timestamp = clock_iso P\<rparr>]\<rparr>)"
    for q' u'
    using assms
    by (simp add: callAPI_def callAPI_catch_def new_Error_def Error_not_AbortError)
  have h: "ui_state (handleSearch P u) = Error
           \<and> errorMessage_textContent (handleSearch P u) = msg_http_error (status r) (statusText r)"
    if "js_trim (queryInput_value u) \<noteq> []"
      "\<not> js_includes (statusText r) (asc ''Failed to fetch'')"
    using that
    by (simp add: handleSearch_def Let_def c displayError_def restoreButtonState_def new_Error_def
        msg_http_error_failed_to_fetch msg_http_error_nonempty ui_state_def none_neq_block)
  from c h msg_http_error_includes show ?thesis
    by simp
qed

lemma show_nat_500: "show_nat 500 = asc ''500''"
  by (simp add: show_nat.simps asc_def)

theorem callAPI_http_status_error_witness:
  "fetch (mock_platform
           (Responded \<lparr>status = 500, statusText = asc ''Internal Server Error'', body = Inr VNull\<rparr>))
     = (\<lambda>_. Responded \<lparr>status = 500, statusText = asc ''Internal Server Error'', body = Inr VNull\<rparr>)
   \<and> \<not> response_ok \<lparr>status = 500, statusText = asc ''Internal Server Error'', body = Inr VNull\<rparr>
   \<and> js_trim (queryInput_value (fresh_page (asc ''refund''))) \<noteq> []
   \<and> \<not> js_includes (asc ''Internal Server Error'') (asc ''Failed to fetch'')
   \<and> ui_state
        (handleSearch
           (mock_platform
             (Responded \<lparr>status = 500, statusText = asc ''Internal Server Error'', body = Inr VNull\<rparr>))
           (fresh_page (asc ''refund''))) = Error
   \<and> js_includes
        (errorMessage_textContent
          (handleSearch
             (mock_platform
               (Responded \<lparr>status = 500, statusText = asc ''Internal Server Error'', body = Inr VNull\<rparr>))
             (fresh_page (asc ''refund''))))
        (asc ''500'')"
proof -
  let ?r = "\<lparr>status = 500, statusText = asc ''Internal Server Error'', body = Inr VNull\<rparr>"
  have f: "fetch (mock_platform (Responded ?r)) = (\<lambda>_. Responded ?r)"
    by (simp add: mock_platform_def)
  have o: "\<not> response_ok ?r"
    by (simp add: response_ok_def)
  have t: "js_trim (queryInput_value (fresh_page (asc ''refund''))) \<noteq> []"
    by (simp add: fresh_page_def js_trim_def js_whitespace_def asc_def)
  have n: "\<not> js_includes (asc ''Internal Server Error'') (asc ''Failed to fetch'')"
    by (simp add: asc_def)
  from callAPI_http_status_error [OF f o, of "[]" "fresh_page (asc ''refund'')"] t n
  have "ui_state (handleSearch (mock_platform (Responded ?r)) (fresh_page (asc ''refund''))) = Error"
    and "errorMessage_textContent
           (handleSearch (mock_platform (Responded ?r)) (fresh_page (asc ''refund'')))
         = msg_http_error 500 (asc ''Internal Server Error'')"
    and "js_includes (msg_http_error 500 (asc ''Internal Server Error'')) (show_nat 500)"
    by simp_all
  with f o t n show ?thesis
    by (simp add: show_nat_500)
qed

text \<open>
  C8 as stated fails for a response with the status 500 whose status text is
  \<open>Failed to fetch\<close>: line 256 takes the HTTP error for a connection failure and shows
  the connection message, which does not mention the status.
\<close>

theorem callAPI_http_status_error_counterexample:
  "errorMessage_textContent
     (handleSearch
        (mock_platform
          (Responded \<lparr>status = 500, statusText = asc ''Failed to fetch'', body = Inr VNull\<rparr>))
        (fresh_page (asc ''refund''))) = msg_cannot_connect
   \<and> \<not> js_includes msg_cannot_connect (asc ''500'')"
proof -
  let ?r = "\<lparr>status = 500, statusText = asc ''Failed to fetch'', body = Inr VNull\<rparr>"
  have f: "fetch (mock_platform (Responded ?r)) = (\<lambda>_. Responded ?r)"
    by (simp add: mock_platform_def)
  have o: "\<not> response_ok ?r"
    by (simp add: response_ok_def)
  have c: "callAPI (mock_platform (Responded ?r)) q u
             = (Inl (new_Error (msg_http_error 500 (asc ''Failed to fetch''))),
                u\<lparr>requests := requests u @ [\<lparr>req_query = q,
                       req_timestamp = clock_iso (mock_platform (Responded ?r))\<rparr>]\<rparr>)" for q u
    using f o by (simp add: callAPI_def callAPI_catch_def new_Error_def Error_not_AbortError)
  have t: "js_trim (queryInput_value (fresh_page (asc ''refund''))) \<noteq> []"
    by (simp add: fresh_page_def js_trim_def js_whitespace_def asc_def)
  have i: "js_includes (msg_http_error 500 (asc ''Failed to fetch'')) (asc ''Failed to fetch'')"
    by (rule msg_http_error_includes)
  have 1: "errorMessage_textContent
     (handleSearch (mock_platform (Responded ?r)) (fresh_page (asc ''refund''))) = msg_cannot_connect"
    using t i
    by (simp add: handleSearch_def Let_def c displayError_def restoreButtonState_def new_Error_def)
  have 2: "\<not> js_includes msg_cannot_connect (asc ''500'')"
    by (simp add: msg_cannot_connect_def API_CONFIG_def asc_def)
  from 1 2 show ?thesis
    by simp
qed


section \<open>The metadata numbers\<close>

lemma number_to_string_nat:
  assumes "n < 2 ^ 53"
  shows "number_to_string P (Fin (of_nat n)) = show_nat n"
proof -
  from assms have "(of_nat n :: rat) < of_nat (2 ^ 53)"
    by (simp only: of_nat_less_iff)
  then have "\<bar>of_nat n :: rat\<bar> < 2 ^ 53"
    by simp
  then show ?thesis
    by (simp add: number_to_string_def is_integer_def)
qed



lemma toFixed2_mock: "toFixed2 P (Fin (123 / 100)) = asc ''1.23''"
proof -
  have "\<lfloor>247 / 2 :: rat\<rfloor> = 123"
    by (simp add: floor_eq_iff)
  then have "nat \<lfloor>\<bar>123 / 100 :: rat\<bar> * 100 + 1 / 2\<rfloor> = 123"
    by simp
  moreover have "show_nat 123 = asc ''123''"
    by (simp add: show_nat.simps asc_def)
  ultimately show ?thesis
    by (simp add: toFixed2_def Let_def pad_zeros_def asc_def)
qed



section \<open>Two checks of the model\<close>

text \<open>\<open>escapeHtml\<close> gives the empty text for \<open>null\<close> and \<open>undefined\<close>, and it leaves
  the double quote as it is, also where its result is put between the double quotes of
  the \<open>href\<close> attribute (line 214).\<close>

lemma escapeHtml_nullish: "escapeHtml P VNull = Inr []" "escapeHtml P VUndefined = Inr []"
  by (simp_all add: escapeHtml_def textContent_of_def bind_exn_def serialize_text_def)

lemma escapeHtml_keeps_double_quote: "escapeHtml P (VStr [0x22]) = Inr [0x22]"
  by (simp add: escapeHtml_def textContent_of_def bind_exn_def serialize_text_def escape_unit_def asc_def)

text \<open>The development helper renders its mock data: the answer, three metadata items
  and two links.\<close>

lemma showMockResult_renders:
  assumes "clock_iso P \<noteq> []"
  shows "showMockResult P (fresh_page [])
     = (None,
        (fresh_page [])
          \<lparr>loadingState_display := asc ''none'',
           resultContent_display := asc ''block'',
           errorContent_display := asc ''none'',
           answerText_textContent :=
             [0x3053, 0x308C, 0x306F, 0x30C6, 0x30B9, 0x30C8, 0x306E, 0x56DE, 0x7B54, 0x3067,
              0x3059, 0x3002, 0x5B9F, 0x969B, 0x306E] @ asc ''API''
             @ [0x30EC, 0x30B9, 0x30DD, 0x30F3, 0x30B9, 0x304C, 0x3053, 0x3053, 0x306B, 0x8868,
                0x793A, 0x3055, 0x308C, 0x307E, 0x3059, 0x3002],
           metadata_innerHTML :=
             item_fileCount (asc ''3'') @ item_timestamp (dateToLocaleString P (VStr (clock_iso P)))
             @ item_processingTime (asc ''1.23''),
           sourcesContainer_display := asc ''block'',
           sourcesList_innerHTML :=
             source_template (asc ''https://example.com/guide'')
               [0x30D7, 0x30ED, 0x30B8, 0x30A7, 0x30AF, 0x30C8, 0x9032, 0x884C, 0x30AC, 0x30A4, 0x30C9]
             @ source_template (asc ''https://example.com/template'')
                 [0x5951, 0x7D04, 0x66F8, 0x30C6, 0x30F3, 0x30D7, 0x30EC, 0x30FC, 0x30C8],
           searchBtn_disabled := False,
           btnText_textContent := label_search\<rparr>)"
proof -
  have k: "asc ''metadata'' \<noteq> asc ''answer''" "asc ''sources'' \<noteq> asc ''answer''"
    "asc ''sources'' \<noteq> asc ''metadata''" "asc ''message'' \<noteq> asc ''answer''"
    "asc ''timestamp'' \<noteq> asc ''fileCount''" "asc ''processingTime'' \<noteq> asc ''fileCount''"
    "asc ''processingTime'' \<noteq> asc ''timestamp''" "asc ''url'' \<noteq> asc ''name''"
    "asc ''https://example.com/guide'' \<noteq> []" "asc ''https://example.com/template'' \<noteq> []"
    by (simp_all add: asc_def)
  have e: "serialize_text (asc ''https://example.com/guide'') = asc ''https://example.com/guide''"
    "serialize_text (asc ''https://example.com/template'') = asc ''https://example.com/template''"
    "serialize_text [0x30D7, 0x30ED, 0x30B8, 0x30A7, 0x30AF, 0x30C8, 0x9032, 0x884C, 0x30AC, 0x30A4, 0x30C9]
       = [0x30D7, 0x30ED, 0x30B8, 0x30A7, 0x30AF, 0x30C8, 0x9032, 0x884C, 0x30AC, 0x30A4, 0x30C9]"
    "serialize_text [0x5951, 0x7D04, 0x66F8, 0x30C6, 0x30F3, 0x30D7, 0x30EC, 0x30FC, 0x30C8]
       = [0x5951, 0x7D04, 0x66F8, 0x30C6, 0x30F3, 0x30D7, 0x30EC, 0x30FC, 0x30C8]"
    by (simp_all add: serialize_text_def escape_unit_def asc_def)
  have s3: "show_nat 3 = asc ''3''"
    by (simp add: show_nat.simps asc_def)
  have n3: "number_to_string P (Fin 3) = asc ''3''"
    using number_to_string_nat [of 3 P] s3 by simp
  have m: "metadata_items P
             (VObj [(asc ''fileCount'', VNum (Fin 3)), (asc ''timestamp'', VStr (clock_iso P)),
                    (asc ''processingTime'', VNum (Fin (123 / 100)))])
           = Inr [item_fileCount (asc ''3''),
                  item_timestamp (dateToLocaleString P (VStr (clock_iso P))),
                  item_processingTime (asc ''1.23'')]"
    using k assms
    by (simp add: metadata_items_def bind_exn_def own_property_def n3 toFixed2_mock timeStr_def)
  have r: "map_sources P 0
             [VObj [(asc ''name'',
                     VStr [0x30D7, 0x30ED, 0x30B8, 0x30A7, 0x30AF, 0x30C8, 0x9032, 0x884C, 0x30AC,
                           0x30A4, 0x30C9]),
                    (asc ''url'', VStr (asc ''https://example.com/guide''))],
              VObj [(asc ''name'',
                     VStr [0x5951, 0x7D04, 0x66F8, 0x30C6, 0x30F3, 0x30D7, 0x30EC, 0x30FC, 0x30C8]),
                    (asc ''url'', VStr (asc ''https://example.com/template''))]]
           = Inr [source_template (asc ''https://example.com/guide'')
                    [0x30D7, 0x30ED, 0x30B8, 0x30A7, 0x30AF, 0x30C8, 0x9032, 0x884C, 0x30AC, 0x30A4, 0x30C9],
                  source_template (asc ''https://example.com/template'')
                    [0x5951, 0x7D04, 0x66F8, 0x30C6, 0x30F3, 0x30D7, 0x30EC, 0x30FC, 0x30C8]]"
    using k e
    by (simp add: render_source_VObj source_target_def source_label_def own_property_def
        js_or_def escapeHtml_def textContent_of_def bind_exn_def)
  show ?thesis
    using k
    by (simp add: showMockResult_def displayResult_def mockData_def answer_of_def bind_exn_def
        own_property_def displayMetadata_def m displaySources_def r restoreButtonState_def
        del: map_sources.simps)
qed

end
